theory Spec2Isabelle
  imports Complex_Main "HOL-Library.Char_ord" "HOL-Library.List_Lexorder"
begin

section \<open>Holiday travel pipeline of \<open>analysis.py\<close>: loaders and combiner\<close>

text \<open>
  The development embeds the four data functions of \<open>analysis.py\<close>:
  \<open>load_noaa_temperature_data\<close>, \<open>load_airport_passengers\<close>, \<open>load_flight_delays\<close> and
  \<open>combine_datasets\<close>. A pandas DataFrame is a list of rows (a record per row, one field
  per column); the CSV loaders start from the frame that \<open>pd.read_csv\<close> hands them, with
  the column types of the input interface (a string key, integer counts, float rates).

  Idealisations, the same throughout: a float64 is an exact real number or one of the
  three special values, so rounding, overflow to infinity and the sign of zero are not
  represented; an int64 count is an unbounded integer; text is a list of 8-bit
  characters, exact for ASCII files.
\<close>

subsection \<open>Float cells\<close>

datatype fl = Fin real | PInf | NInf | NaN

fun is_fin :: "fl \<Rightarrow> bool" where
  "is_fin (Fin _) = True"
| "is_fin _ = False"

fun isna :: "fl \<Rightarrow> bool" where
  "isna NaN = True"
| "isna _ = False"

definition fl_of_int :: "int \<Rightarrow> fl" where
  "fl_of_int i = Fin (of_int i)"

fun fl_add :: "fl \<Rightarrow> fl \<Rightarrow> fl" where
  "fl_add NaN _ = NaN"
| "fl_add _ NaN = NaN"
| "fl_add (Fin a) (Fin b) = Fin (a + b)"
| "fl_add PInf NInf = NaN"
| "fl_add NInf PInf = NaN"
| "fl_add PInf _ = PInf"
| "fl_add _ PInf = PInf"
| "fl_add NInf _ = NInf"
| "fl_add _ NInf = NInf"

fun fl_neg :: "fl \<Rightarrow> fl" where
  "fl_neg (Fin a) = Fin (- a)"
| "fl_neg PInf = NInf"
| "fl_neg NInf = PInf"
| "fl_neg NaN = NaN"

text \<open>An infinity times a finite value takes the sign of the product; times zero it is NaN.\<close>

definition inf_by :: "fl \<Rightarrow> real \<Rightarrow> fl" where
  "inf_by i b = (if b = 0 then NaN else if 0 < b then i else fl_neg i)"

fun fl_mul :: "fl \<Rightarrow> fl \<Rightarrow> fl" where
  "fl_mul NaN _ = NaN"
| "fl_mul _ NaN = NaN"
| "fl_mul (Fin a) (Fin b) = Fin (a * b)"
| "fl_mul (Fin a) PInf = inf_by PInf a"
| "fl_mul (Fin a) NInf = inf_by NInf a"
| "fl_mul PInf (Fin b) = inf_by PInf b"
| "fl_mul NInf (Fin b) = inf_by NInf b"
| "fl_mul PInf PInf = PInf"
| "fl_mul NInf NInf = PInf"
| "fl_mul PInf NInf = NInf"
| "fl_mul NInf PInf = NInf"

text \<open>
  numpy's true division, as pandas applies it to two columns: it never raises. A zero
  divisor gives NaN under a zero dividend and an infinity of the dividend's sign
  otherwise.
\<close>

fun fl_div :: "fl \<Rightarrow> fl \<Rightarrow> fl" where
  "fl_div NaN _ = NaN"
| "fl_div _ NaN = NaN"
| "fl_div (Fin a) (Fin b) =
     (if b \<noteq> 0 then Fin (a / b)
      else if a = 0 then NaN
      else if 0 < a then PInf else NInf)"
| "fl_div (Fin a) _ = Fin 0"
| "fl_div PInf (Fin b) = (if 0 \<le> b then PInf else NInf)"
| "fl_div NInf (Fin b) = (if 0 \<le> b then NInf else PInf)"
| "fl_div _ _ = NaN"

text \<open>pandas reductions skip NaN cells (\<open>skipna=True\<close>); the sum of no cells is 0.\<close>

definition fl_sum :: "fl list \<Rightarrow> fl" where
  "fl_sum xs = foldl fl_add (Fin 0) (filter (\<lambda>x. \<not> isna x) xs)"

definition fl_mean :: "fl list \<Rightarrow> fl" where
  "fl_mean xs =
     (let ys = filter (\<lambda>x. \<not> isna x) xs
      in if ys = [] then NaN else fl_div (fl_sum ys) (fl_of_int (int (length ys))))"

definition fillna :: "real \<Rightarrow> fl \<Rightarrow> fl" where
  "fillna v x = (if isna x then Fin v else x)"

subsection \<open>\<open>DataFrame.groupby\<close>\<close>

text \<open>
  \<open>df.groupby(key)\<close> with the default \<open>sort=True\<close>: the distinct keys in ascending order,
  each with its rows in their order in the frame.
\<close>

definition groupby :: "('r \<Rightarrow> string) \<Rightarrow> 'r list \<Rightarrow> (string \<times> 'r list) list" where
  "groupby key df =
     map (\<lambda>k. (k, filter (\<lambda>r. key r = k) df)) (sort (remdups (map key df)))"

subsection \<open>\<open>load_airport_passengers\<close>\<close>

text \<open>A row of the passenger CSV (prefix \<open>p_\<close>) and a row of the loader's result (prefix \<open>sp_\<close>).\<close>

record passenger_row =
  p_state_code :: string
  p_nov_passengers :: int
  p_dec_passengers :: int

record state_passengers =
  sp_state_code :: string
  sp_holiday_travel_volume :: int
  sp_nov_passengers :: int
  sp_dec_passengers :: int

definition load_airport_passengers :: "passenger_row list \<Rightarrow> state_passengers list" where
  "load_airport_passengers df =
     map (\<lambda>(k, g).
            let nov = sum_list (map p_nov_passengers g);
                dec = sum_list (map p_dec_passengers g)
            in \<lparr>sp_state_code = k, sp_holiday_travel_volume = nov + dec,
                sp_nov_passengers = nov, sp_dec_passengers = dec\<rparr>)
         (groupby p_state_code df)"

subsection \<open>\<open>load_flight_delays\<close>\<close>

text \<open>A row of the delay CSV (prefix \<open>d_\<close>) and a row of the loader's result (prefix \<open>sd_\<close>).\<close>

record delay_row =
  d_state_code :: string
  d_delay_pct :: fl
  d_avg_delay_minutes :: fl
  d_total_flights :: int
  d_delayed_flights :: int
  d_cancelled_flights :: int

record state_delays =
  sd_state_code :: string
  sd_avg_delay_pct :: fl
  sd_avg_delay_minutes :: fl
  sd_total_flights :: int
  sd_delayed_flights :: int
  sd_cancelled_flights :: int

text \<open>The two columns the loader adds to the frame before grouping.\<close>

definition weighted_delay :: "delay_row \<Rightarrow> fl" where
  "weighted_delay r = fl_mul (d_delay_pct r) (fl_of_int (d_total_flights r))"

definition weighted_minutes :: "delay_row \<Rightarrow> fl" where
  "weighted_minutes r = fl_mul (d_avg_delay_minutes r) (fl_of_int (d_delayed_flights r))"

definition load_flight_delays :: "delay_row list \<Rightarrow> state_delays list" where
  "load_flight_delays df =
     map (\<lambda>(k, g).
            let total = sum_list (map d_total_flights g);
                delayed = sum_list (map d_delayed_flights g);
                cancelled = sum_list (map d_cancelled_flights g);
                wd = fl_sum (map weighted_delay g);
                wm = fl_sum (map weighted_minutes g)
            in \<lparr>sd_state_code = k,
                sd_avg_delay_pct = fl_div wd (fl_of_int total),
                sd_avg_delay_minutes = fl_div wm (fl_of_int delayed),
                sd_total_flights = total, sd_delayed_flights = delayed,
                sd_cancelled_flights = cancelled\<rparr>)
         (groupby d_state_code df)"

subsection \<open>\<open>combine_datasets\<close>\<close>

text \<open>
  The temperature table, and the two frames the merges build on it: each merge adds the
  columns of its right-hand frame. A merged count column is a float column, since a row
  without a match holds NaN there.
\<close>

record temp_row =
  state_code :: string
  state_name :: string
  avg_dec_temperature :: fl
  avg_nov_temperature :: fl

record with_passengers = temp_row +
  holiday_travel_volume :: fl
  nov_passengers :: fl
  dec_passengers :: fl

record combined_row = with_passengers +
  avg_delay_pct :: fl
  avg_delay_minutes :: fl
  total_flights :: fl
  delayed_flights :: fl
  cancelled_flights :: fl

text \<open>
  \<open>left.merge(right, on='state_code', how='left')\<close>: the left rows in their order, each
  joined with every right row of its key, or once with no row when the key has none.
\<close>

definition merge_left ::
  "('l \<Rightarrow> string) \<Rightarrow> ('r \<Rightarrow> string) \<Rightarrow> ('l \<Rightarrow> 'r option \<Rightarrow> 'o) \<Rightarrow> 'l list \<Rightarrow> 'r list \<Rightarrow> 'o list" where
  "merge_left kl kr join left right =
     concat (map (\<lambda>l. case filter (\<lambda>r. kr r = kl l) right of
                         [] \<Rightarrow> [join l None]
                       | ms \<Rightarrow> map (\<lambda>r. join l (Some r)) ms) left)"

fun join_passengers :: "temp_row \<Rightarrow> state_passengers option \<Rightarrow> with_passengers" where
  "join_passengers t None =
     \<lparr>state_code = state_code t, state_name = state_name t,
      avg_dec_temperature = avg_dec_temperature t,
      avg_nov_temperature = avg_nov_temperature t,
      holiday_travel_volume = NaN, nov_passengers = NaN, dec_passengers = NaN\<rparr>"
| "join_passengers t (Some p) =
     \<lparr>state_code = state_code t, state_name = state_name t,
      avg_dec_temperature = avg_dec_temperature t,
      avg_nov_temperature = avg_nov_temperature t,
      holiday_travel_volume = fl_of_int (sp_holiday_travel_volume p),
      nov_passengers = fl_of_int (sp_nov_passengers p),
      dec_passengers = fl_of_int (sp_dec_passengers p)\<rparr>"

fun join_delays :: "with_passengers \<Rightarrow> state_delays option \<Rightarrow> combined_row" where
  "join_delays c None =
     \<lparr>state_code = state_code c, state_name = state_name c,
      avg_dec_temperature = avg_dec_temperature c,
      avg_nov_temperature = avg_nov_temperature c,
      holiday_travel_volume = holiday_travel_volume c,
      nov_passengers = nov_passengers c, dec_passengers = dec_passengers c,
      avg_delay_pct = NaN, avg_delay_minutes = NaN, total_flights = NaN,
      delayed_flights = NaN, cancelled_flights = NaN\<rparr>"
| "join_delays c (Some d) =
     \<lparr>state_code = state_code c, state_name = state_name c,
      avg_dec_temperature = avg_dec_temperature c,
      avg_nov_temperature = avg_nov_temperature c,
      holiday_travel_volume = holiday_travel_volume c,
      nov_passengers = nov_passengers c, dec_passengers = dec_passengers c,
      avg_delay_pct = sd_avg_delay_pct d,
      avg_delay_minutes = sd_avg_delay_minutes d,
      total_flights = fl_of_int (sd_total_flights d),
      delayed_flights = fl_of_int (sd_delayed_flights d),
      cancelled_flights = fl_of_int (sd_cancelled_flights d)\<rparr>"

definition combine_datasets ::
  "state_passengers list \<Rightarrow> state_delays list \<Rightarrow> temp_row list \<Rightarrow> combined_row list" where
  "combine_datasets passengers_df delays_df temp_df =
     (let combined = merge_left state_code sp_state_code join_passengers temp_df passengers_df;
          combined = merge_left state_code sd_state_code join_delays combined delays_df;
          combined = map (\<lambda>r. r\<lparr>holiday_travel_volume := fillna 0 (holiday_travel_volume r)\<rparr>) combined;
          combined = map (\<lambda>r. r\<lparr>avg_delay_pct := fillna 0 (avg_delay_pct r)\<rparr>) combined
      in combined)"

subsection \<open>\<open>load_noaa_temperature_data\<close>\<close>

datatype py_error = IndexError | ValueError | KeyError

text \<open>What the loader prints, in order: one constructor per \<open>print\<close> call.\<close>

datatype message = Loading | Found nat | NoStatewide | AddedHawaii | Loaded nat

text \<open>The state table \<open>STATE_FIPS\<close>: 2-digit key, state code and state name.\<close>

definition STATE_FIPS :: "(string \<times> string \<times> string) list" where
  "STATE_FIPS =
    [(''01'', ''AL'', ''Alabama''), (''02'', ''AZ'', ''Arizona''), (''03'', ''AR'', ''Arkansas''),
     (''04'', ''CA'', ''California''), (''05'', ''CO'', ''Colorado''), (''06'', ''CT'', ''Connecticut''),
     (''07'', ''DE'', ''Delaware''), (''08'', ''FL'', ''Florida''), (''09'', ''GA'', ''Georgia''),
     (''10'', ''ID'', ''Idaho''), (''11'', ''IL'', ''Illinois''), (''12'', ''IN'', ''Indiana''),
     (''13'', ''IA'', ''Iowa''), (''14'', ''KS'', ''Kansas''), (''15'', ''KY'', ''Kentucky''),
     (''16'', ''LA'', ''Louisiana''), (''17'', ''ME'', ''Maine''), (''18'', ''MD'', ''Maryland''),
     (''19'', ''MA'', ''Massachusetts''), (''20'', ''MI'', ''Michigan''), (''21'', ''MN'', ''Minnesota''),
     (''22'', ''MS'', ''Mississippi''), (''23'', ''MO'', ''Missouri''), (''24'', ''MT'', ''Montana''),
     (''25'', ''NE'', ''Nebraska''), (''26'', ''NV'', ''Nevada''), (''27'', ''NH'', ''New Hampshire''),
     (''28'', ''NJ'', ''New Jersey''), (''29'', ''NM'', ''New Mexico''), (''30'', ''NY'', ''New York''),
     (''31'', ''NC'', ''North Carolina''), (''32'', ''ND'', ''North Dakota''), (''33'', ''OH'', ''Ohio''),
     (''34'', ''OK'', ''Oklahoma''), (''35'', ''OR'', ''Oregon''), (''36'', ''PA'', ''Pennsylvania''),
     (''37'', ''RI'', ''Rhode Island''), (''38'', ''SC'', ''South Carolina''), (''39'', ''SD'', ''South Dakota''),
     (''40'', ''TN'', ''Tennessee''), (''41'', ''TX'', ''Texas''), (''42'', ''UT'', ''Utah''),
     (''43'', ''VT'', ''Vermont''), (''44'', ''VA'', ''Virginia''), (''45'', ''WA'', ''Washington''),
     (''46'', ''WV'', ''West Virginia''), (''47'', ''WI'', ''Wisconsin''), (''48'', ''WY'', ''Wyoming''),
     (''50'', ''AK'', ''Alaska''), (''51'', ''HI'', ''Hawaii'')]"

text \<open>
  \<open>str.split()\<close> with no argument: the maximal runs of characters that are not
  whitespace. The ASCII whitespace characters are 9 to 13 and 28 to 32.
\<close>

definition isspace :: "char \<Rightarrow> bool" where
  "isspace c = (let n = (of_char c :: nat) in (9 \<le> n \<and> n \<le> 13) \<or> (28 \<le> n \<and> n \<le> 32))"

fun tokens :: "string \<Rightarrow> string \<Rightarrow> string list" where
  "tokens cur [] = (if cur = [] then [] else [rev cur])"
| "tokens cur (c # cs) =
     (if isspace c then (if cur = [] then tokens [] cs else rev cur # tokens [] cs)
      else tokens (c # cur) cs)"

definition split :: "string \<Rightarrow> string list" where
  "split line = tokens [] line"

text \<open>One element of \<open>data_rows\<close>; \<open>temps\<close> holds the twelve monthly columns, January first.\<close>

record noaa_row =
  code :: string
  state_fips :: string
  division :: string
  year :: int
  temps :: "fl list"

definition nov :: "noaa_row \<Rightarrow> fl" where
  "nov r = temps r ! 10"

definition dec :: "noaa_row \<Rightarrow> fl" where
  "dec r = temps r ! 11"

text \<open>
  The body of the reading loop for one line. The builtins \<open>int\<close> and \<open>float\<close> are
  parameters: \<open>py_int s\<close> and \<open>py_float s\<close> are the value Python returns for the string
  \<open>s\<close>, or \<open>None\<close> where it raises ValueError. A line with fewer than 13 parts adds no
  row. On a longer line \<open>code[5]\<close> raises IndexError when the first part has fewer than
  6 characters; the slices \<open>code[:3]\<close>, \<open>code[3:5]\<close>, \<open>code[6:10]\<close> never raise.
\<close>

definition parse_line ::
  "(string \<Rightarrow> int option) \<Rightarrow> (string \<Rightarrow> fl option) \<Rightarrow> string \<Rightarrow> py_error + noaa_row option" where
  "parse_line py_int py_float line =
     (let parts = split line in
      if length parts \<ge> 13 then
        (let c = hd parts;
             sf = take 3 c;
             dv = take 2 (drop 3 c)
         in if length c \<le> 5 then Inl IndexError
            else case py_int (take 4 (drop 6 c)) of
                   None \<Rightarrow> Inl ValueError
                 | Some y \<Rightarrow>
                     (case those (map py_float (take 12 (drop 1 parts))) of
                        None \<Rightarrow> Inl ValueError
                      | Some ts \<Rightarrow>
                          Inr (Some \<lparr>code = c, state_fips = sf,
                                     division = dv, year = y, temps = ts\<rparr>)))
      else Inr None)"

text \<open>The reading loop: the rows of the lines in order; the first exception ends it.\<close>

fun read_rows ::
  "(string \<Rightarrow> int option) \<Rightarrow> (string \<Rightarrow> fl option) \<Rightarrow> string list \<Rightarrow> py_error + noaa_row list" where
  "read_rows py_int py_float [] = Inr []"
| "read_rows py_int py_float (line # rest) =
     (case parse_line py_int py_float line of
        Inl e \<Rightarrow> Inl e
      | Inr None \<Rightarrow> read_rows py_int py_float rest
      | Inr (Some r) \<Rightarrow>
          (case read_rows py_int py_float rest of
             Inl e \<Rightarrow> Inl e
           | Inr rs \<Rightarrow> Inr (r # rs)))"

definition current_year :: int where
  "current_year = 2024"

definition years_range :: "int \<Rightarrow> bool" where
  "years_range y = (current_year - 4 \<le> y \<and> y < current_year + 1)"

text \<open>\<open>df[(df['division'] == d) & (df['year'].isin(years_range))]\<close>\<close>

definition select_division :: "string \<Rightarrow> noaa_row list \<Rightarrow> noaa_row list" where
  "select_division d df = filter (\<lambda>r. division r = d \<and> years_range (year r)) df"

text \<open>\<open>groupby('state_fips').agg({'dec': 'mean', 'nov': 'mean'})\<close>: key, December, November.\<close>

definition dec_nov_means :: "noaa_row list \<Rightarrow> (string \<times> fl \<times> fl) list" where
  "dec_nov_means statewide =
     map (\<lambda>(k, g). (k, fl_mean (map dec g), fl_mean (map nov g)))
         (groupby state_fips statewide)"

definition lstrip0 :: "string \<Rightarrow> string" where
  "lstrip0 s = dropWhile (\<lambda>c. c = CHR ''0'') s"

text \<open>\<open>zfill\<close> pads on the left with zeros, after a leading sign if there is one.\<close>

definition zfill :: "nat \<Rightarrow> string \<Rightarrow> string" where
  "zfill w s =
     (if w \<le> length s then s
      else case s of
             [] \<Rightarrow> replicate w CHR ''0''
           | c # cs \<Rightarrow>
               if c = CHR ''+'' \<or> c = CHR ''-''
               then c # replicate (w - length s) CHR ''0'' @ cs
               else replicate (w - length s) CHR ''0'' @ s)"

definition state_fips_2 :: "string \<Rightarrow> string" where
  "state_fips_2 f = zfill 2 (lstrip0 f)"

text \<open>
  The three mapping lines and the \<open>notna\<close> filter: a group whose key is not in
  \<open>STATE_FIPS\<close> gets the code \<open>None\<close> and is dropped; the others are renamed.
\<close>

definition resolve_states :: "(string \<times> fl \<times> fl) list \<Rightarrow> temp_row list" where
  "resolve_states dec_avg =
     List.map_filter
       (\<lambda>(f, d, n). case map_of STATE_FIPS (state_fips_2 f) of
                       None \<Rightarrow> None
                     | Some (c, nm) \<Rightarrow>
                         Some \<lparr>state_code = c, state_name = nm,
                               avg_dec_temperature = d, avg_nov_temperature = n\<rparr>)
       dec_avg"

definition hawaii_row :: temp_row where
  "hawaii_row = \<lparr>state_code = ''HI'', state_name = ''Hawaii'',
                 avg_dec_temperature = Fin 73, avg_nov_temperature = Fin 75\<rparr>"

text \<open>
  The statewide filter and its fallback: the rows of division \<open>00\<close> in the year
  window, or, when there is none in the whole frame, the rows of division \<open>01\<close> in the
  same window.
\<close>

definition statewide_records :: "noaa_row list \<Rightarrow> noaa_row list \<times> message list" where
  "statewide_records df =
     (let statewide = select_division ''00'' df;
          out = [Found (length statewide)]
      in if length statewide = 0
         then (select_division ''01'' df, out @ [NoStatewide])
         else (statewide, out))"

definition add_hawaii :: "temp_row list \<Rightarrow> temp_row list \<times> message list" where
  "add_hawaii dec_avg =
     (if ''HI'' \<notin> set (map state_code dec_avg)
      then (dec_avg @ [hawaii_row], [AddedHawaii])
      else (dec_avg, []))"

text \<open>
  The loader on the lines of the file: what it prints and the table it returns, or the
  exception it raises. Its body runs the steps above in the order of the source:
  reading, statewide filter with fallback, group means, state resolution, Hawaii.
  \<open>pd.DataFrame([])\<close> has no columns, so with no row read the first filter raises
  KeyError at \<open>df['division']\<close>.
\<close>

definition load_noaa_temperature_data ::
  "(string \<Rightarrow> int option) \<Rightarrow> (string \<Rightarrow> fl option) \<Rightarrow> string list
     \<Rightarrow> py_error + (message list \<times> temp_row list)" where
  "load_noaa_temperature_data py_int py_float lines =
     (case read_rows py_int py_float lines of
        Inl e \<Rightarrow> Inl e
      | Inr df \<Rightarrow>
          if df = [] then Inl KeyError
          else
            (let (statewide, out1) = statewide_records df;
                 dec_avg = resolve_states (dec_nov_means statewide);
                 (dec_avg, out2) = add_hawaii dec_avg
             in Inr ([Loading] @ out1 @ out2 @ [Loaded (length dec_avg)], dec_avg)))"

text \<open>
  Readers of plain decimal tokens, as the file holds them: digits for \<open>int\<close>; an optional
  minus sign, digits, and optionally a point and more digits for \<open>float\<close>. Where they
  return a value, Python's builtins return the same one, and \<open>int('')\<close> raises as
  \<open>dec_int\<close> does. The examples below run the loader with these two; the general
  statements hold for every pair of readers.
\<close>

definition digit_val :: "char \<Rightarrow> nat option" where
  "digit_val c = (let n = (of_char c :: nat) in if 48 \<le> n \<and> n \<le> 57 then Some (n - 48) else None)"

definition digits_val :: "string \<Rightarrow> nat option" where
  "digits_val s =
     (if s = [] then None
      else map_option (foldl (\<lambda>a d. 10 * a + d) 0) (those (map digit_val s)))"

definition dec_int :: "string \<Rightarrow> int option" where
  "dec_int s = map_option int (digits_val s)"

definition dec_unsigned :: "string \<Rightarrow> real option" where
  "dec_unsigned s =
     (let ip = takeWhile (\<lambda>c. c \<noteq> CHR ''.'') s;
          fp = drop 1 (dropWhile (\<lambda>c. c \<noteq> CHR ''.'') s)
      in case digits_val ip of
           None \<Rightarrow> None
         | Some i \<Rightarrow>
             if CHR ''.'' \<notin> set s then Some (real i)
             else if fp = [] then Some (real i)
             else map_option (\<lambda>f. real i + real f / 10 ^ length fp) (digits_val fp))"

definition dec_float :: "string \<Rightarrow> fl option" where
  "dec_float s =
     (case s of
        [] \<Rightarrow> None
      | c # cs \<Rightarrow>
          if c = CHR ''-'' then map_option (\<lambda>x. Fin (- x)) (dec_unsigned cs)
          else map_option Fin (dec_unsigned s))"

subsection \<open>Example files\<close>

text \<open>
  Alabama (FIPS 001) statewide for 2020 to 2024, with December values 40, 42, 44, 46,
  48 and November values 50, 52, 54, 56, 58; a title line, a statewide row of 2019 and
  a division 01 row of 2022 lie outside the selection.
\<close>

definition five_year_file :: "string list" where
  "five_year_file =
    [''NOAA climdiv-tmpcst'',
     ''0010022019 45.1 48.2 55.3 62.4 70.5 77.6 80.7 79.8 74.9 64.0 10.0 20.0'',
     ''0010022020 45.1 48.2 55.3 62.4 70.5 77.6 80.7 79.8 74.9 64.0 50.0 40.0'',
     ''0010022021 45.1 48.2 55.3 62.4 70.5 77.6 80.7 79.8 74.9 64.0 52.0 42.0'',
     ''0010022022 45.1 48.2 55.3 62.4 70.5 77.6 80.7 79.8 74.9 64.0 54.0 44.0'',
     ''0010122022 45.1 48.2 55.3 62.4 70.5 77.6 80.7 79.8 74.9 64.0 90.0 99.0'',
     ''0010022023 45.1 48.2 55.3 62.4 70.5 77.6 80.7 79.8 74.9 64.0 56.0 46.0'',
     ''0010022024 45.1 48.2 55.3 62.4 70.5 77.6 80.7 79.8 74.9 64.0 58.0 48.0'']"

text \<open>Alabama with a statewide row, Arizona (FIPS 002) with a division 01 row only.\<close>

definition mixed_file :: "string list" where
  "mixed_file =
    [''0010022022 45.1 48.2 55.3 62.4 70.5 77.6 80.7 79.8 74.9 64.0 54.0 44.0'',
     ''0020122022 52.1 55.2 60.3 67.4 76.5 85.6 90.7 88.8 83.9 72.0 60.0 51.0'']"

text \<open>Division 01 rows only, for Arizona and Alabama.\<close>

definition division_01_file :: "string list" where
  "division_01_file =
    [''0020122022 52.1 55.2 60.3 67.4 76.5 85.6 90.7 88.8 83.9 72.0 60.0 51.0'',
     ''0010122021 45.1 48.2 55.3 62.4 70.5 77.6 80.7 79.8 74.9 64.0 54.0 44.0'']"

text \<open>A statewide row for Hawaii (FIPS 051) beside the Alabama row.\<close>

definition hawaii_file :: "string list" where
  "hawaii_file =
    [''0010022022 45.1 48.2 55.3 62.4 70.5 77.6 80.7 79.8 74.9 64.0 54.0 44.0'',
     ''0510022022 71.1 71.2 72.3 73.4 75.5 77.6 78.7 79.8 78.9 77.0 74.5 72.5'']"

text \<open>No line with 13 parts; and a line of 13 parts whose first part has 3 characters.\<close>

definition no_rows_file :: "string list" where
  "no_rows_file = [''NOAA climdiv-tmpcst'', [], ''0010022022 45.1 48.2'']"

definition short_code_file :: "string list" where
  "short_code_file = [''001 45.1 48.2 55.3 62.4 70.5 77.6 80.7 79.8 74.9 64.0 54.0 44.0'']"

section \<open>Properties\<close>

subsection \<open>Grouping\<close>

lemma groupby_keys: "map fst (groupby key df) = sort (remdups (map key df))"
  by (simp add: groupby_def comp_def)

lemma groupby_mem:
  "(k, g) \<in> set (groupby key df) \<longleftrightarrow> k \<in> key ` set df \<and> g = filter (\<lambda>r. key r = k) df"
  by (auto simp: groupby_def)

lemma load_airport_passengers_codes:
  "map sp_state_code (load_airport_passengers df) = sort (remdups (map p_state_code df))"
  by (simp add: load_airport_passengers_def groupby_def comp_def Let_def)

lemma load_flight_delays_codes:
  "map sd_state_code (load_flight_delays df) = sort (remdups (map d_state_code df))"
  by (simp add: load_flight_delays_def groupby_def comp_def Let_def)

subsection \<open>Passenger loader\<close>

text \<open>
  C8. Every row of the passenger loader's result belongs to a state code of the input;
  its \<open>nov_passengers\<close> and \<open>dec_passengers\<close> are the sums of those columns over all
  input rows of that state, and its \<open>holiday_travel_volume\<close> is their sum.
\<close>

theorem passengers_volume:
  assumes "r \<in> set (load_airport_passengers df)"
  shows "sp_holiday_travel_volume r = sp_nov_passengers r + sp_dec_passengers r
    \<and> sp_nov_passengers r =
        (\<Sum>x\<leftarrow>filter (\<lambda>x. p_state_code x = sp_state_code r) df. p_nov_passengers x)
    \<and> sp_dec_passengers r =
        (\<Sum>x\<leftarrow>filter (\<lambda>x. p_state_code x = sp_state_code r) df. p_dec_passengers x)
    \<and> sp_state_code r \<in> p_state_code ` set df"
  using assms by (auto simp: load_airport_passengers_def groupby_mem Let_def)

text \<open>
  The two California markets with 100/50 and 200/75 passengers give the row
  300, 125 and 425.
\<close>

theorem passengers_volume_witness:
  "\<lparr>sp_state_code = ''CA'', sp_holiday_travel_volume = 425,
    sp_nov_passengers = 300, sp_dec_passengers = 125\<rparr>
     \<in> set (load_airport_passengers
          [\<lparr>p_state_code = ''CA'', p_nov_passengers = 100, p_dec_passengers = 50\<rparr>,
           \<lparr>p_state_code = ''CA'', p_nov_passengers = 200, p_dec_passengers = 75\<rparr>])
   \<and> (425 :: int) = 300 + 125
   \<and> (300 :: int) = 100 + 200 \<and> (125 :: int) = 50 + 75"
proof -
  let ?r = "\<lparr>sp_state_code = ''CA'', sp_holiday_travel_volume = 425,
             sp_nov_passengers = 300, sp_dec_passengers = 125\<rparr>"
  let ?df = "[\<lparr>p_state_code = ''CA'', p_nov_passengers = 100, p_dec_passengers = 50\<rparr>,
              \<lparr>p_state_code = ''CA'', p_nov_passengers = 200, p_dec_passengers = 75\<rparr>]"
  have h: "?r \<in> set (load_airport_passengers ?df)"
    by code_simp
  from passengers_volume [OF h] h show ?thesis
    by simp
qed

subsection \<open>Delay loader\<close>

lemma foldl_fl_add_fin:
  "foldl fl_add (Fin a) (map (\<lambda>x. Fin (f x)) xs) = Fin (a + (\<Sum>x\<leftarrow>xs. f x))"
  by (induction xs arbitrary: a) (simp_all add: add.assoc)

lemma fl_sum_fin: "fl_sum (map (\<lambda>x. Fin (f x)) xs) = Fin (\<Sum>x\<leftarrow>xs. f x)"
proof -
  have "filter (\<lambda>x. \<not> isna x) (map (\<lambda>x. Fin (f x)) xs) = map (\<lambda>x. Fin (f x)) xs"
    by (induction xs) simp_all
  then show ?thesis
    by (simp add: fl_sum_def foldl_fl_add_fin)
qed

lemma filter_key_single:
  assumes "distinct (map f xs)" and "s \<in> f ` set xs"
  shows "\<exists>r. filter (\<lambda>r. f r = s) xs = [r]"
  using assms
proof (induction xs)
  case Nil
  then show ?case by simp
next
  case (Cons x xs)
  show ?case
  proof (cases "f x = s")
    case True
    with Cons.prems(1) have "s \<notin> f ` set xs"
      by simp
    then have "filter (\<lambda>r. f r = s) xs = []"
      by (auto simp: filter_empty_conv)
    with True show ?thesis by simp
  next
    case False
    with Cons show ?thesis by auto
  qed
qed

lemma load_flight_delays_row:
  assumes "r \<in> set (load_flight_delays df)"
  shows "sd_state_code r \<in> d_state_code ` set df
    \<and> sd_total_flights r =
        (\<Sum>x\<leftarrow>filter (\<lambda>x. d_state_code x = sd_state_code r) df. d_total_flights x)
    \<and> sd_delayed_flights r =
        (\<Sum>x\<leftarrow>filter (\<lambda>x. d_state_code x = sd_state_code r) df. d_delayed_flights x)
    \<and> sd_cancelled_flights r =
        (\<Sum>x\<leftarrow>filter (\<lambda>x. d_state_code x = sd_state_code r) df. d_cancelled_flights x)
    \<and> sd_avg_delay_pct r =
        fl_div (fl_sum (map weighted_delay (filter (\<lambda>x. d_state_code x = sd_state_code r) df)))
               (fl_of_int (sd_total_flights r))
    \<and> sd_avg_delay_minutes r =
        fl_div (fl_sum (map weighted_minutes (filter (\<lambda>x. d_state_code x = sd_state_code r) df)))
               (fl_of_int (sd_delayed_flights r))"
  using assms by (auto simp: load_flight_delays_def groupby_mem Let_def)

lemma load_flight_delays_single:
  assumes "s \<in> d_state_code ` set df"
  shows "\<exists>r. filter (\<lambda>r. sd_state_code r = s) (load_flight_delays df) = [r]"
proof -
  have "distinct (map sd_state_code (load_flight_delays df))"
    by (simp add: load_flight_delays_codes)
  moreover have "s \<in> sd_state_code ` set (load_flight_delays df)"
  proof -
    have "set (map sd_state_code (load_flight_delays df)) = d_state_code ` set df"
      by (simp add: load_flight_delays_codes)
    with assms show ?thesis by simp
  qed
  ultimately show ?thesis by (rule filter_key_single)
qed

text \<open>
  C1. For every state code \<open>s\<close> of a delay frame whose rates and minutes are numbers, the
  loader's result has exactly one row for \<open>s\<close>. Its flight counts are the sums over the
  rows of \<open>s\<close>; where the total is not zero its \<open>avg_delay_pct\<close> is
  \<open>sum(delay_pct * total_flights) / sum(total_flights)\<close>, and where the delayed count is
  not zero its \<open>avg_delay_minutes\<close> is
  \<open>sum(avg_delay_minutes * delayed_flights) / sum(delayed_flights)\<close>, all over the rows
  of \<open>s\<close>.
\<close>

theorem delays_weighted_average:
  assumes "s \<in> d_state_code ` set df"
    and "\<And>x. x \<in> set df \<Longrightarrow> d_delay_pct x = Fin (pct x)"
    and "\<And>x. x \<in> set df \<Longrightarrow> d_avg_delay_minutes x = Fin (mins x)"
  shows "\<exists>r. filter (\<lambda>r. sd_state_code r = s) (load_flight_delays df) = [r]
    \<and> sd_total_flights r = (\<Sum>x\<leftarrow>filter (\<lambda>x. d_state_code x = s) df. d_total_flights x)
    \<and> sd_delayed_flights r = (\<Sum>x\<leftarrow>filter (\<lambda>x. d_state_code x = s) df. d_delayed_flights x)
    \<and> (sd_total_flights r \<noteq> 0 \<longrightarrow>
         sd_avg_delay_pct r =
           Fin ((\<Sum>x\<leftarrow>filter (\<lambda>x. d_state_code x = s) df.
                    pct x * real_of_int (d_total_flights x))
                / real_of_int (\<Sum>x\<leftarrow>filter (\<lambda>x. d_state_code x = s) df. d_total_flights x)))
    \<and> (sd_delayed_flights r \<noteq> 0 \<longrightarrow>
         sd_avg_delay_minutes r =
           Fin ((\<Sum>x\<leftarrow>filter (\<lambda>x. d_state_code x = s) df.
                    mins x * real_of_int (d_delayed_flights x))
                / real_of_int (\<Sum>x\<leftarrow>filter (\<lambda>x. d_state_code x = s) df. d_delayed_flights x)))"
proof -
  let ?g = "filter (\<lambda>x. d_state_code x = s) df"
  from load_flight_delays_single [OF assms(1)] obtain r
    where single: "filter (\<lambda>r. sd_state_code r = s) (load_flight_delays df) = [r]" ..
  then have "r \<in> set (filter (\<lambda>r. sd_state_code r = s) (load_flight_delays df))"
    by simp
  then have mem: "r \<in> set (load_flight_delays df)" and key: "sd_state_code r = s"
    by simp_all
  note row = load_flight_delays_row [OF mem, unfolded key]
  have wd: "map weighted_delay ?g = map (\<lambda>x. Fin (pct x * real_of_int (d_total_flights x))) ?g"
    using assms(2) by (simp add: weighted_delay_def fl_of_int_def)
  have wm: "map weighted_minutes ?g = map (\<lambda>x. Fin (mins x * real_of_int (d_delayed_flights x))) ?g"
    using assms(3) by (simp add: weighted_minutes_def fl_of_int_def)
  have tf: "sd_total_flights r = (\<Sum>x\<leftarrow>?g. d_total_flights x)"
    using row by simp
  have dl: "sd_delayed_flights r = (\<Sum>x\<leftarrow>?g. d_delayed_flights x)"
    using row by simp
  have pct_eq: "sd_avg_delay_pct r =
      fl_div (Fin (\<Sum>x\<leftarrow>?g. pct x * real_of_int (d_total_flights x)))
             (fl_of_int (sd_total_flights r))"
    using row wd by (simp add: fl_sum_fin)
  have min_eq: "sd_avg_delay_minutes r =
      fl_div (Fin (\<Sum>x\<leftarrow>?g. mins x * real_of_int (d_delayed_flights x)))
             (fl_of_int (sd_delayed_flights r))"
    using row wm by (simp add: fl_sum_fin)
  have c1: "sd_total_flights r \<noteq> 0 \<longrightarrow> sd_avg_delay_pct r =
           Fin ((\<Sum>x\<leftarrow>?g. pct x * real_of_int (d_total_flights x))
                / real_of_int (\<Sum>x\<leftarrow>?g. d_total_flights x))"
    using pct_eq tf by (simp add: fl_of_int_def)
  have c2: "sd_delayed_flights r \<noteq> 0 \<longrightarrow> sd_avg_delay_minutes r =
           Fin ((\<Sum>x\<leftarrow>?g. mins x * real_of_int (d_delayed_flights x))
                / real_of_int (\<Sum>x\<leftarrow>?g. d_delayed_flights x))"
    using min_eq dl by (simp add: fl_of_int_def)
  from single tf dl c1 c2 show ?thesis by blast
qed

text \<open>
  Two Texas markets with 10 percent of 100 flights and 20 percent of 300 flights: the
  state's rate is 7000 / 400 = 17.5, not the unweighted 15.
\<close>

theorem delays_weighted_average_witness:
  "''TX'' \<in> d_state_code ` set
         [\<lparr>d_state_code = ''TX'', d_delay_pct = Fin 10, d_avg_delay_minutes = Fin 30,
           d_total_flights = 100, d_delayed_flights = 10, d_cancelled_flights = 1\<rparr>,
          \<lparr>d_state_code = ''TX'', d_delay_pct = Fin 20, d_avg_delay_minutes = Fin 40,
           d_total_flights = 300, d_delayed_flights = 60, d_cancelled_flights = 2\<rparr>]
   \<and> load_flight_delays
         [\<lparr>d_state_code = ''TX'', d_delay_pct = Fin 10, d_avg_delay_minutes = Fin 30,
           d_total_flights = 100, d_delayed_flights = 10, d_cancelled_flights = 1\<rparr>,
          \<lparr>d_state_code = ''TX'', d_delay_pct = Fin 20, d_avg_delay_minutes = Fin 40,
           d_total_flights = 300, d_delayed_flights = 60, d_cancelled_flights = 2\<rparr>]
       = [\<lparr>sd_state_code = ''TX'', sd_avg_delay_pct = Fin 17.5,
           sd_avg_delay_minutes = Fin (270 / 7), sd_total_flights = 400,
           sd_delayed_flights = 70, sd_cancelled_flights = 3\<rparr>]
   \<and> (17.5 :: real) = (10 * 100 + 20 * 300) / (100 + 300)
   \<and> (17.5 :: real) \<noteq> (10 + 20) / 2"
proof -
  let ?df = "[\<lparr>d_state_code = ''TX'', d_delay_pct = Fin 10, d_avg_delay_minutes = Fin 30,
           d_total_flights = 100, d_delayed_flights = 10, d_cancelled_flights = 1\<rparr>,
          \<lparr>d_state_code = ''TX'', d_delay_pct = Fin 20, d_avg_delay_minutes = Fin 40,
           d_total_flights = 300, d_delayed_flights = 60, d_cancelled_flights = 2\<rparr>]"
  let ?pct = "\<lambda>x. if d_total_flights x = 100 then 10 else (20 :: real)"
  let ?mins = "\<lambda>x. if d_total_flights x = 100 then 30 else (40 :: real)"
  have h: "''TX'' \<in> d_state_code ` set ?df"
    by simp
  have p: "\<And>x. x \<in> set ?df \<Longrightarrow> d_delay_pct x = Fin (?pct x)"
    by auto
  have m: "\<And>x. x \<in> set ?df \<Longrightarrow> d_avg_delay_minutes x = Fin (?mins x)"
    by auto
  have e: "load_flight_delays ?df
       = [\<lparr>sd_state_code = ''TX'', sd_avg_delay_pct = Fin 17.5,
           sd_avg_delay_minutes = Fin (270 / 7), sd_total_flights = 400,
           sd_delayed_flights = 70, sd_cancelled_flights = 3\<rparr>]"
    by code_simp
  from delays_weighted_average [of "''TX''" ?df ?pct ?mins, OF h p m] h e show ?thesis
    by simp
qed

text \<open>
  C3 as stated fails: a state whose markets report no flights at all gets NaN for both
  averages, not a default such as 0.
\<close>

theorem delays_zero_denominator_counterexample:
  "load_flight_delays
     [\<lparr>d_state_code = ''WY'', d_delay_pct = Fin 12, d_avg_delay_minutes = Fin 30,
       d_total_flights = 0, d_delayed_flights = 0, d_cancelled_flights = 0\<rparr>]
   = [\<lparr>sd_state_code = ''WY'', sd_avg_delay_pct = NaN, sd_avg_delay_minutes = NaN,
       sd_total_flights = 0, sd_delayed_flights = 0, sd_cancelled_flights = 0\<rparr>]"
  by code_simp

text \<open>
  C3, amended. The loader's division does not raise. In every row of its result, a zero
  \<open>total_flights\<close> gives an \<open>avg_delay_pct\<close> that is NaN or an infinity, and a zero
  \<open>delayed_flights\<close> gives such an \<open>avg_delay_minutes\<close>: never a finite default.
\<close>

theorem delays_zero_denominator:
  assumes "r \<in> set (load_flight_delays df)"
  shows "(sd_total_flights r = 0 \<longrightarrow> sd_avg_delay_pct r \<in> {NaN, PInf, NInf})
       \<and> (sd_delayed_flights r = 0 \<longrightarrow> sd_avg_delay_minutes r \<in> {NaN, PInf, NInf})"
proof -
  have z: "fl_div x (Fin 0) \<in> {NaN, PInf, NInf}" for x
    by (cases x) simp_all
  from load_flight_delays_row [OF assms]
  have "sd_avg_delay_pct r = fl_div (fl_sum (map weighted_delay
            (filter (\<lambda>x. d_state_code x = sd_state_code r) df))) (fl_of_int (sd_total_flights r))"
    and "sd_avg_delay_minutes r = fl_div (fl_sum (map weighted_minutes
            (filter (\<lambda>x. d_state_code x = sd_state_code r) df))) (fl_of_int (sd_delayed_flights r))"
    by simp_all
  then show ?thesis
    using z by (auto simp: fl_of_int_def)
qed

theorem delays_zero_denominator_witness:
  "\<lparr>sd_state_code = ''VT'', sd_avg_delay_pct = NaN, sd_avg_delay_minutes = NaN,
    sd_total_flights = 0, sd_delayed_flights = 0, sd_cancelled_flights = 4\<rparr>
     \<in> set (load_flight_delays
         [\<lparr>d_state_code = ''VT'', d_delay_pct = Fin 5, d_avg_delay_minutes = Fin 30,
           d_total_flights = 0, d_delayed_flights = 0, d_cancelled_flights = 4\<rparr>,
          \<lparr>d_state_code = ''VT'', d_delay_pct = Fin 7, d_avg_delay_minutes = Fin 10,
           d_total_flights = 0, d_delayed_flights = 0, d_cancelled_flights = 0\<rparr>])
   \<and> NaN \<in> {NaN, PInf, NInf}"
proof -
  let ?r = "\<lparr>sd_state_code = ''VT'', sd_avg_delay_pct = NaN, sd_avg_delay_minutes = NaN,
    sd_total_flights = 0, sd_delayed_flights = 0, sd_cancelled_flights = 4\<rparr>"
  let ?df = "[\<lparr>d_state_code = ''VT'', d_delay_pct = Fin 5, d_avg_delay_minutes = Fin 30,
           d_total_flights = 0, d_delayed_flights = 0, d_cancelled_flights = 4\<rparr>,
          \<lparr>d_state_code = ''VT'', d_delay_pct = Fin 7, d_avg_delay_minutes = Fin 10,
           d_total_flights = 0, d_delayed_flights = 0, d_cancelled_flights = 0\<rparr>]"
  have h: "?r \<in> set (load_flight_delays ?df)"
    by code_simp
  from delays_zero_denominator [OF h] h show ?thesis
    by simp
qed

subsection \<open>Combiner\<close>

lemma merge_left_mem:
  "x \<in> set (merge_left kl kr join left right) \<longleftrightarrow>
     (\<exists>l \<in> set left. (filter (\<lambda>r. kr r = kl l) right = [] \<and> x = join l None)
        \<or> (\<exists>r \<in> set right. kr r = kl l \<and> x = join l (Some r)))"
proof -
  have one: "x \<in> set (case filter (\<lambda>r. kr r = kl l) right of
                         [] \<Rightarrow> [join l None]
                       | ms \<Rightarrow> map (\<lambda>r. join l (Some r)) ms) \<longleftrightarrow>
        (filter (\<lambda>r. kr r = kl l) right = [] \<and> x = join l None)
        \<or> (\<exists>r \<in> set right. kr r = kl l \<and> x = join l (Some r))" for l
  proof (cases "filter (\<lambda>r. kr r = kl l) right")
    case Nil
    then show ?thesis by (auto simp: filter_empty_conv)
  next
    case (Cons m ms)
    then have "set (filter (\<lambda>r. kr r = kl l) right) = set (m # ms)" by simp
    then have s: "{r \<in> set right. kr r = kl l} = set (m # ms)" by simp
    have "x \<in> (\<lambda>r. join l (Some r)) ` set (m # ms) \<longleftrightarrow> (\<exists>r \<in> set right. kr r = kl l \<and> x = join l (Some r))"
      unfolding s [symmetric] by auto
    with Cons show ?thesis by simp
  qed
  show ?thesis
    unfolding merge_left_def using one by auto
qed

lemma filter_find_distinct:
  assumes "distinct (map f xs)"
  shows "filter (\<lambda>r. f r = k) xs = (case find (\<lambda>r. f r = k) xs of None \<Rightarrow> [] | Some r \<Rightarrow> [r])"
  using assms
proof (induction xs)
  case Nil
  then show ?case by simp
next
  case (Cons x xs)
  show ?case
  proof (cases "f x = k")
    case True
    with Cons.prems have "k \<notin> f ` set xs" by simp
    then have "filter (\<lambda>r. f r = k) xs = []"
      by (auto simp: filter_empty_conv)
    with True show ?thesis by simp
  next
    case False
    with Cons show ?thesis by simp
  qed
qed

lemma merge_left_distinct:
  assumes "distinct (map kr right)"
  shows "merge_left kl kr join left right = map (\<lambda>l. join l (find (\<lambda>r. kr r = kl l) right)) left"
proof -
  have "(case filter (\<lambda>r. kr r = kl l) right of [] \<Rightarrow> [join l None] | ms \<Rightarrow> map (\<lambda>r. join l (Some r)) ms)
        = [join l (find (\<lambda>r. kr r = kl l) right)]" for l
    by (simp add: filter_find_distinct [OF assms] split: option.splits)
  then show ?thesis
    by (simp add: merge_left_def)
qed

lemma state_code_join_passengers [simp]: "state_code (join_passengers t p) = state_code t"
  by (cases p) simp_all

lemma state_code_join_delays [simp]: "state_code (join_delays c d) = state_code c"
  by (cases d) simp_all

lemma find_None_key: "find (\<lambda>r. f r = k) xs = None \<longleftrightarrow> k \<notin> f ` set xs"
  by (auto simp: find_None_iff)

lemma combine_datasets_distinct:
  assumes "distinct (map sp_state_code passengers_df)" and "distinct (map sd_state_code delays_df)"
  shows "combine_datasets passengers_df delays_df temp_df =
     map (\<lambda>t. let c = join_delays (join_passengers t (find (\<lambda>p. sp_state_code p = state_code t) passengers_df))
                                  (find (\<lambda>d. sd_state_code d = state_code t) delays_df)
               in c\<lparr>holiday_travel_volume := fillna 0 (holiday_travel_volume c),
                     avg_delay_pct := fillna 0 (avg_delay_pct c)\<rparr>) temp_df"
  by (simp add: combine_datasets_def merge_left_distinct [OF assms(1)] merge_left_distinct [OF assms(2)]
                Let_def comp_def)

lemma combine_universe_general:
  assumes "distinct (map sp_state_code passengers_df)" and "distinct (map sd_state_code delays_df)"
  shows "map state_code (combine_datasets passengers_df delays_df temp_df) = map state_code temp_df"
    and "\<forall>r \<in> set (combine_datasets passengers_df delays_df temp_df).
           (state_code r \<notin> sp_state_code ` set passengers_df \<longrightarrow> holiday_travel_volume r = Fin 0)
         \<and> (state_code r \<notin> sd_state_code ` set delays_df \<longrightarrow> avg_delay_pct r = Fin 0)"
proof -
  show "map state_code (combine_datasets passengers_df delays_df temp_df) = map state_code temp_df"
    by (simp add: combine_datasets_distinct [OF assms] Let_def comp_def)
  show "\<forall>r \<in> set (combine_datasets passengers_df delays_df temp_df).
           (state_code r \<notin> sp_state_code ` set passengers_df \<longrightarrow> holiday_travel_volume r = Fin 0)
         \<and> (state_code r \<notin> sd_state_code ` set delays_df \<longrightarrow> avg_delay_pct r = Fin 0)"
  proof
    fix r
    assume "r \<in> set (combine_datasets passengers_df delays_df temp_df)"
    then obtain t where t: "t \<in> set temp_df"
      and r: "r = (let c = join_delays (join_passengers t (find (\<lambda>p. sp_state_code p = state_code t) passengers_df))
                                  (find (\<lambda>d. sd_state_code d = state_code t) delays_df)
               in c\<lparr>holiday_travel_volume := fillna 0 (holiday_travel_volume c),
                     avg_delay_pct := fillna 0 (avg_delay_pct c)\<rparr>)"
      unfolding combine_datasets_distinct [OF assms] by auto
    have k: "state_code r = state_code t"
      using r by (simp add: Let_def)
    have a: "holiday_travel_volume r = Fin 0" if "state_code r \<notin> sp_state_code ` set passengers_df"
    proof -
      from that k have "find (\<lambda>p. sp_state_code p = state_code t) passengers_df = None"
        by (simp add: find_None_key)
      then show ?thesis
        using r by (cases "find (\<lambda>d. sd_state_code d = state_code t) delays_df")
          (simp_all add: Let_def fillna_def)
    qed
    have b: "avg_delay_pct r = Fin 0" if "state_code r \<notin> sd_state_code ` set delays_df"
    proof -
      from that k have "find (\<lambda>d. sd_state_code d = state_code t) delays_df = None"
        by (simp add: find_None_key)
      then show ?thesis
        using r by (simp add: Let_def fillna_def)
    qed
    from a b show "(state_code r \<notin> sp_state_code ` set passengers_df \<longrightarrow> holiday_travel_volume r = Fin 0)
         \<and> (state_code r \<notin> sd_state_code ` set delays_df \<longrightarrow> avg_delay_pct r = Fin 0)"
      by blast
  qed
qed

text \<open>
  C6 as stated fails: a state of the temperature table without a delay row gets
  \<open>avg_delay_pct = 0\<close>, but its other four delay columns stay NaN.
\<close>

theorem combine_delay_fill_counterexample:
  "combine_datasets []
     (load_flight_delays
        [\<lparr>d_state_code = ''TX'', d_delay_pct = Fin 10, d_avg_delay_minutes = Fin 30,
          d_total_flights = 100, d_delayed_flights = 10, d_cancelled_flights = 1\<rparr>])
     [\<lparr>state_code = ''WY'', state_name = ''Wyoming'',
       avg_dec_temperature = Fin 20, avg_nov_temperature = Fin 30\<rparr>]
   = [\<lparr>state_code = ''WY'', state_name = ''Wyoming'',
       avg_dec_temperature = Fin 20, avg_nov_temperature = Fin 30,
       holiday_travel_volume = Fin 0, nov_passengers = NaN, dec_passengers = NaN,
       avg_delay_pct = Fin 0, avg_delay_minutes = NaN, total_flights = NaN,
       delayed_flights = NaN, cancelled_flights = NaN\<rparr>]"
  by code_simp

text \<open>
  C6, amended. In the combiner's result, for any frames, a row whose state has no row in
  the delay frame has \<open>avg_delay_pct = 0\<close>, and its \<open>avg_delay_minutes\<close>,
  \<open>total_flights\<close>, \<open>delayed_flights\<close> and \<open>cancelled_flights\<close> are NaN: only the
  first is filled.
\<close>

theorem combine_delay_fill:
  assumes "r \<in> set (combine_datasets passengers_df delays_df temp_df)"
    and "state_code r \<notin> sd_state_code ` set delays_df"
  shows "avg_delay_pct r = Fin 0 \<and> avg_delay_minutes r = NaN \<and> total_flights r = NaN
       \<and> delayed_flights r = NaN \<and> cancelled_flights r = NaN"
proof -
  let ?m = "merge_left state_code sp_state_code join_passengers temp_df passengers_df"
  from assms(1) obtain x where x: "x \<in> set (merge_left state_code sd_state_code join_delays ?m delays_df)"
    and r: "r = x\<lparr>holiday_travel_volume := fillna 0 (holiday_travel_volume x),
                   avg_delay_pct := fillna 0 (avg_delay_pct x)\<rparr>"
    by (auto simp: combine_datasets_def Let_def)
  from x obtain l where l: "x = join_delays l None
      \<or> (\<exists>d \<in> set delays_df. sd_state_code d = state_code l \<and> x = join_delays l (Some d))"
    unfolding merge_left_mem by blast
  have "state_code x = state_code r"
    using r by simp
  moreover have "state_code x = state_code l"
    using l by auto
  ultimately have "state_code l \<notin> sd_state_code ` set delays_df"
    using assms(2) by simp
  then have "\<not> (\<exists>d \<in> set delays_df. sd_state_code d = state_code l \<and> x = join_delays l (Some d))"
    by force
  with l have "x = join_delays l None"
    by blast
  with r show ?thesis
    by (simp add: fillna_def)
qed


theorem combine_delay_fill_witness:
  "\<lparr>state_code = ''HI'', state_name = ''Hawaii'',
    avg_dec_temperature = Fin 73, avg_nov_temperature = Fin 75,
    holiday_travel_volume = Fin 0, nov_passengers = NaN, dec_passengers = NaN,
    avg_delay_pct = Fin 0, avg_delay_minutes = NaN, total_flights = NaN,
    delayed_flights = NaN, cancelled_flights = NaN\<rparr>
     \<in> set (combine_datasets []
          [\<lparr>sd_state_code = ''AK'', sd_avg_delay_pct = Fin 21, sd_avg_delay_minutes = Fin 48,
            sd_total_flights = 900, sd_delayed_flights = 189, sd_cancelled_flights = 7\<rparr>]
          [hawaii_row])
   \<and> ''HI'' \<notin> sd_state_code ` set
          [\<lparr>sd_state_code = ''AK'', sd_avg_delay_pct = Fin 21, sd_avg_delay_minutes = Fin 48,
            sd_total_flights = 900, sd_delayed_flights = 189, sd_cancelled_flights = 7\<rparr>]"
proof -
  let ?r = "\<lparr>state_code = ''HI'', state_name = ''Hawaii'',
    avg_dec_temperature = Fin 73, avg_nov_temperature = Fin 75,
    holiday_travel_volume = Fin 0, nov_passengers = NaN, dec_passengers = NaN,
    avg_delay_pct = Fin 0, avg_delay_minutes = NaN, total_flights = NaN,
    delayed_flights = NaN, cancelled_flights = NaN\<rparr>"
  let ?d = "[\<lparr>sd_state_code = ''AK'', sd_avg_delay_pct = Fin 21, sd_avg_delay_minutes = Fin 48,
            sd_total_flights = 900, sd_delayed_flights = 189, sd_cancelled_flights = 7\<rparr>]"
  have h: "?r \<in> set (combine_datasets [] ?d [hawaii_row])"
    by code_simp
  have k: "state_code ?r \<notin> sd_state_code ` set ?d"
    by simp
  from combine_delay_fill [OF h k] h show ?thesis
    by simp
qed

subsection \<open>Temperature loader\<close>

lemma parse_line_short:
  "length (split line) < 13 \<Longrightarrow> parse_line py_int py_float line = Inr None"
  by (simp add: parse_line_def Let_def)

lemma parse_line_IndexError:
  "parse_line py_int py_float line = Inl IndexError \<longleftrightarrow>
     13 \<le> length (split line) \<and> length (hd (split line)) \<le> 5"
  by (auto simp: parse_line_def Let_def split: option.splits)

lemma read_rows_IndexError:
  "read_rows py_int py_float lines = Inl IndexError \<Longrightarrow>
     \<exists>l \<in> set lines. parse_line py_int py_float l = Inl IndexError"
  by (induction lines) (auto split: sum.splits option.splits)

lemma read_rows_all_short:
  "(\<forall>l \<in> set lines. length (split l) < 13) \<Longrightarrow> read_rows py_int py_float lines = Inr []"
  by (induction lines) (simp_all add: parse_line_short)

lemma load_noaa_rows:
  assumes "read_rows py_int py_float lines = Inr df" and "df \<noteq> []"
  shows "load_noaa_temperature_data py_int py_float lines =
     Inr ([Loading] @ snd (statewide_records df)
            @ snd (add_hawaii (resolve_states (dec_nov_means (fst (statewide_records df)))))
            @ [Loaded (length (fst (add_hawaii (resolve_states (dec_nov_means (fst (statewide_records df)))))))],
          fst (add_hawaii (resolve_states (dec_nov_means (fst (statewide_records df))))))"
  using assms by (simp add: load_noaa_temperature_data_def Let_def split: prod.splits)

lemma STATE_FIPS_keys:
  assumes "map_of STATE_FIPS k = Some v"
  shows "length k = 2 \<and> k \<noteq> ''00'' \<and> hd k \<noteq> CHR ''+'' \<and> hd k \<noteq> CHR ''-''"
proof -
  from assms have "(k, v) \<in> set STATE_FIPS"
    by (rule map_of_SomeD)
  then show ?thesis
    unfolding STATE_FIPS_def by auto
qed

lemma STATE_FIPS_codes_distinct: "distinct (map (\<lambda>(k, c, n). c) STATE_FIPS)"
  unfolding STATE_FIPS_def by simp

lemma STATE_FIPS_keys_distinct: "distinct (map fst STATE_FIPS)"
  unfolding STATE_FIPS_def by simp

lemma STATE_FIPS_code_inj:
  assumes "map_of STATE_FIPS k1 = Some (c, n1)" and "map_of STATE_FIPS k2 = Some (c, n2)"
  shows "k1 = k2"
proof -
  let ?inv = "map (\<lambda>(k, c, n). (c, k)) STATE_FIPS"
  have d: "distinct (map fst ?inv)"
    using STATE_FIPS_codes_distinct by (simp add: comp_def case_prod_unfold)
  from assms have "(k1, c, n1) \<in> set STATE_FIPS" and "(k2, c, n2) \<in> set STATE_FIPS"
    by (auto dest: map_of_SomeD)
  then have i1: "(c, k1) \<in> set ?inv" and i2: "(c, k2) \<in> set ?inv"
    by force+
  have "map_of ?inv c = Some k1"
    using d i1 by (rule map_of_is_SomeI)
  moreover have "map_of ?inv c = Some k2"
    using d i2 by (rule map_of_is_SomeI)
  ultimately show ?thesis by simp
qed

lemma state_fips_2_inv:
  assumes "length f = 3" and "map_of STATE_FIPS (state_fips_2 f) = Some v"
  shows "f = CHR ''0'' # state_fips_2 f"
proof -
  from assms(1) obtain a b c where f: "f = [a, b, c]"
    by (cases f; cases "tl f"; cases "tl (tl f)") auto
  note k = STATE_FIPS_keys [OF assms(2)]
  show ?thesis
  proof (cases "a = CHR ''0''")
    case False
    then have "state_fips_2 f = f"
      by (simp add: f state_fips_2_def lstrip0_def zfill_def numeral_2_eq_2)
    with k f show ?thesis by simp
  next
    case a: True
    show ?thesis
    proof (cases "b = CHR ''0''")
      case False
      with a show ?thesis
        by (simp add: f state_fips_2_def lstrip0_def zfill_def numeral_2_eq_2)
    next
      case b: True
      show ?thesis
      proof (cases "c = CHR ''0''")
        case True
        with a b have "state_fips_2 f = ''00''"
          by (simp add: f state_fips_2_def lstrip0_def zfill_def numeral_2_eq_2)
        with k show ?thesis by simp
      next
        case False
        with a b have "state_fips_2 f = (if c = CHR ''+'' \<or> c = CHR ''-'' then [c, CHR ''0''] else [CHR ''0'', c])"
          by (simp add: f state_fips_2_def lstrip0_def zfill_def numeral_2_eq_2)
        with k a b f show ?thesis
          by (auto split: if_splits)
      qed
    qed
  qed
qed

lemma parse_line_fips_length:
  "parse_line py_int py_float line = Inr (Some r) \<Longrightarrow> length (state_fips r) = 3"
  by (auto simp: parse_line_def Let_def split: if_splits option.splits)

lemma read_rows_fips_length:
  "read_rows py_int py_float lines = Inr df \<Longrightarrow> r \<in> set df \<Longrightarrow> length (state_fips r) = 3"
proof (induction lines arbitrary: df)
  case Nil
  then show ?case by simp
next
  case (Cons l ls)
  then show ?case
    by (auto split: sum.splits option.splits dest: parse_line_fips_length)
qed

lemma statewide_records_subset: "set (fst (statewide_records df)) \<subseteq> set df"
  by (auto simp: statewide_records_def select_division_def Let_def)

lemma resolve_states_means:
  "resolve_states (dec_nov_means sw) =
     List.map_filter
       (\<lambda>f. case map_of STATE_FIPS (state_fips_2 f) of
               None \<Rightarrow> None
             | Some (c, nm) \<Rightarrow>
                 Some \<lparr>state_code = c, state_name = nm,
                       avg_dec_temperature = fl_mean (map dec (filter (\<lambda>r. state_fips r = f) sw)),
                       avg_nov_temperature = fl_mean (map nov (filter (\<lambda>r. state_fips r = f) sw))\<rparr>)
       (sort (remdups (map state_fips sw)))"
  by (simp add: resolve_states_def dec_nov_means_def groupby_def List.map_filter_def
                filter_map comp_def)

lemma resolve_states_codes:
  "map state_code (resolve_states (dec_nov_means sw)) =
     List.map_filter (\<lambda>f. map_option fst (map_of STATE_FIPS (state_fips_2 f)))
       (sort (remdups (map state_fips sw)))"
proof -
  have "map state_code (List.map_filter
       (\<lambda>f. case map_of STATE_FIPS (state_fips_2 f) of
               None \<Rightarrow> None
             | Some (c, nm) \<Rightarrow>
                 Some \<lparr>state_code = c, state_name = nm,
                       avg_dec_temperature = fl_mean (map dec (filter (\<lambda>r. state_fips r = f) sw)),
                       avg_nov_temperature = fl_mean (map nov (filter (\<lambda>r. state_fips r = f) sw))\<rparr>) ks)
     = List.map_filter (\<lambda>f. map_option fst (map_of STATE_FIPS (state_fips_2 f))) ks" for ks
    by (induction ks) (auto split: option.splits)
  then show ?thesis
    by (simp add: resolve_states_means)
qed

lemma distinct_map_filter_inj:
  assumes "distinct xs"
    and "\<And>x y v. x \<in> set xs \<Longrightarrow> y \<in> set xs \<Longrightarrow> g x = Some v \<Longrightarrow> g y = Some v \<Longrightarrow> x = y"
  shows "distinct (List.map_filter g xs)"
  using assms
proof (induction xs)
  case Nil
  then show ?case by simp
next
  case (Cons x xs)
  have ih: "distinct (List.map_filter g xs)"
    using Cons by auto
  show ?case
  proof (cases "g x")
    case None
    with ih show ?thesis by simp
  next
    case (Some v)
    have "v \<notin> set (List.map_filter g xs)"
    proof
      assume "v \<in> set (List.map_filter g xs)"
      then obtain y where y: "y \<in> set xs" and gy: "g y = Some v"
        by (auto simp: List.map_filter_def)
      then have "x = y"
        using Cons.prems(2) [of x y v] Some by simp
      with y Cons.prems(1) show False by simp
    qed
    with ih Some show ?thesis by simp
  qed
qed

lemma resolve_states_distinct:
  assumes "\<forall>r \<in> set sw. length (state_fips r) = 3"
  shows "distinct (map state_code (resolve_states (dec_nov_means sw)))"
  unfolding resolve_states_codes
proof (rule distinct_map_filter_inj)
  show "distinct (sort (remdups (map state_fips sw)))"
    by simp
next
  fix x y v
  assume x: "x \<in> set (sort (remdups (map state_fips sw)))"
    and y: "y \<in> set (sort (remdups (map state_fips sw)))"
    and gx: "map_option fst (map_of STATE_FIPS (state_fips_2 x)) = Some v"
    and gy: "map_option fst (map_of STATE_FIPS (state_fips_2 y)) = Some v"
  from x y assms have lx: "length x = 3" and ly: "length y = 3"
    by auto
  from gx obtain n1 where m1: "map_of STATE_FIPS (state_fips_2 x) = Some (v, n1)"
    by auto
  from gy obtain n2 where m2: "map_of STATE_FIPS (state_fips_2 y) = Some (v, n2)"
    by auto
  from m1 m2 have "state_fips_2 x = state_fips_2 y"
    by (rule STATE_FIPS_code_inj)
  moreover have "x = CHR ''0'' # state_fips_2 x"
    using lx m1 by (rule state_fips_2_inv)
  moreover have "y = CHR ''0'' # state_fips_2 y"
    using ly m2 by (rule state_fips_2_inv)
  ultimately show "x = y" by simp
qed

lemma load_noaa_returns:
  assumes "load_noaa_temperature_data py_int py_float lines = Inr (out, tbl)"
  shows "\<exists>df. read_rows py_int py_float lines = Inr df \<and> df \<noteq> []"
  using assms by (auto simp: load_noaa_temperature_data_def split: sum.splits if_splits)

lemma add_hawaii_distinct:
  "distinct (map state_code t) \<Longrightarrow> distinct (map state_code (fst (add_hawaii t)))"
  by (auto simp: add_hawaii_def hawaii_row_def)

lemma load_noaa_distinct:
  assumes "load_noaa_temperature_data py_int py_float lines = Inr (out, tbl)"
  shows "distinct (map state_code tbl)"
proof -
  from load_noaa_returns [OF assms] obtain df
    where df: "read_rows py_int py_float lines = Inr df" and ne: "df \<noteq> []"
    by blast
  have "\<forall>r \<in> set (fst (statewide_records df)). length (state_fips r) = 3"
    using read_rows_fips_length [OF df] statewide_records_subset by blast
  then have "distinct (map state_code (resolve_states (dec_nov_means (fst (statewide_records df)))))"
    by (rule resolve_states_distinct)
  then have "distinct (map state_code (fst (add_hawaii (resolve_states (dec_nov_means (fst (statewide_records df)))))))"
    by (rule add_hawaii_distinct)
  moreover have "tbl = fst (add_hawaii (resolve_states (dec_nov_means (fst (statewide_records df)))))"
    using assms load_noaa_rows [OF df ne] by simp
  ultimately show ?thesis by simp
qed

lemma fl_mean_fin:
  assumes "xs \<noteq> []"
  shows "fl_mean (map (\<lambda>x. Fin (h x)) xs) = Fin ((\<Sum>x\<leftarrow>xs. h x) / real (length xs))"
proof -
  have "filter (\<lambda>x. \<not> isna x) (map (\<lambda>x. Fin (h x)) xs) = map (\<lambda>x. Fin (h x)) xs"
    by (induction xs) simp_all
  with assms show ?thesis
    by (simp add: fl_mean_def fl_sum_fin fl_of_int_def)
qed

lemma resolve_states_mem:
  "row \<in> set (resolve_states (dec_nov_means sw)) \<longleftrightarrow>
     (\<exists>f \<in> state_fips ` set sw. \<exists>c nm.
        map_of STATE_FIPS (state_fips_2 f) = Some (c, nm)
      \<and> row = \<lparr>state_code = c, state_name = nm,
                avg_dec_temperature = fl_mean (map dec (filter (\<lambda>r. state_fips r = f) sw)),
                avg_nov_temperature = fl_mean (map nov (filter (\<lambda>r. state_fips r = f) sw))\<rparr>)"
proof -
  have m: "y \<in> set (List.map_filter g xs) \<longleftrightarrow> (\<exists>x \<in> set xs. g x = Some y)" for y :: temp_row
    and g :: "string \<Rightarrow> temp_row option" and xs
    by (induction xs) (auto split: option.splits)
  have p: "(case map_of STATE_FIPS (state_fips_2 f) of
               None \<Rightarrow> None
             | Some (c, nm) \<Rightarrow>
                 Some \<lparr>state_code = c, state_name = nm,
                       avg_dec_temperature = fl_mean (map dec (filter (\<lambda>r. state_fips r = f) sw)),
                       avg_nov_temperature = fl_mean (map nov (filter (\<lambda>r. state_fips r = f) sw))\<rparr>)
            = Some row \<longleftrightarrow>
          (\<exists>c nm. map_of STATE_FIPS (state_fips_2 f) = Some (c, nm)
      \<and> row = \<lparr>state_code = c, state_name = nm,
                avg_dec_temperature = fl_mean (map dec (filter (\<lambda>r. state_fips r = f) sw)),
                avg_nov_temperature = fl_mean (map nov (filter (\<lambda>r. state_fips r = f) sw))\<rparr>)" for f
    by (auto split: option.splits)
  have k: "set (sort (remdups (map state_fips sw))) = state_fips ` set sw"
    by simp
  show ?thesis
    unfolding resolve_states_means m p k ..
qed

lemma hawaii_key: "map_of STATE_FIPS ''51'' = Some (''HI'', ''Hawaii'')"
  unfolding STATE_FIPS_def by simp

lemma resolve_states_hawaii:
  assumes "\<forall>r \<in> set sw. length (state_fips r) = 3"
  shows "''HI'' \<in> state_code ` set (resolve_states (dec_nov_means sw))
     \<longleftrightarrow> ''051'' \<in> state_fips ` set sw"
proof
  assume "''HI'' \<in> state_code ` set (resolve_states (dec_nov_means sw))"
  then obtain row where "row \<in> set (resolve_states (dec_nov_means sw))" and "state_code row = ''HI''"
    by auto
  then have "\<exists>f \<in> state_fips ` set sw. \<exists>nm. map_of STATE_FIPS (state_fips_2 f) = Some (''HI'', nm)"
    unfolding resolve_states_mem by fastforce
  then obtain f nm where f: "f \<in> state_fips ` set sw"
    and m: "map_of STATE_FIPS (state_fips_2 f) = Some (''HI'', nm)"
    by blast
  from m hawaii_key have "state_fips_2 f = ''51''"
    by (rule STATE_FIPS_code_inj)
  moreover from f assms have "length f = 3"
    by auto
  then have "f = CHR ''0'' # state_fips_2 f"
    using m by (rule state_fips_2_inv)
  ultimately have "f = ''051''"
    by simp
  with f show "''051'' \<in> state_fips ` set sw"
    by simp
next
  assume f: "''051'' \<in> state_fips ` set sw"
  have "state_fips_2 ''051'' = ''51''"
    by (simp add: state_fips_2_def lstrip0_def zfill_def)
  with hawaii_key have "map_of STATE_FIPS (state_fips_2 ''051'') = Some (''HI'', ''Hawaii'')"
    by simp
  with f have "\<lparr>state_code = ''HI'', state_name = ''Hawaii'',
                avg_dec_temperature = fl_mean (map dec (filter (\<lambda>r. state_fips r = ''051'') sw)),
                avg_nov_temperature = fl_mean (map nov (filter (\<lambda>r. state_fips r = ''051'') sw))\<rparr>
        \<in> set (resolve_states (dec_nov_means sw))"
    unfolding resolve_states_mem by blast
  then show "''HI'' \<in> state_code ` set (resolve_states (dec_nov_means sw))"
    by force
qed

text \<open>
  C10. A file in which no line splits into 13 parts or more makes the loader raise: no
  row is read, and the first filter fails with KeyError on the frame without columns.
  No table, empty or with Hawaii alone, is returned.
\<close>

theorem no_rows_KeyError:
  assumes "\<forall>l \<in> set lines. length (split l) < 13"
  shows "load_noaa_temperature_data py_int py_float lines = Inl KeyError"
  using read_rows_all_short [OF assms] by (simp add: load_noaa_temperature_data_def)

theorem no_rows_KeyError_witness:
  "map (\<lambda>l. length (split l)) no_rows_file = [2, 0, 3]
   \<and> load_noaa_temperature_data dec_int dec_float no_rows_file = Inl KeyError"
proof -
  have m: "map (\<lambda>l. length (split l)) no_rows_file = [2, 0, 3]"
    by code_simp
  have h: "\<forall>l \<in> set no_rows_file. length (split l) < 13"
    by code_simp
  from no_rows_KeyError [OF h] m show ?thesis
    by simp
qed

text \<open>
  C5 as stated fails: a line of 13 parts whose first part has 3 characters is not
  skipped, and \<open>code[5]\<close> raises IndexError on it.
\<close>

theorem malformed_lines_counterexample:
  "length (split (hd short_code_file)) = 13 \<and> length (hd (split (hd short_code_file))) = 3
   \<and> load_noaa_temperature_data dec_int dec_float short_code_file = Inl IndexError"
  by code_simp

text \<open>
  C5, amended. A line that splits into fewer than 13 parts adds no row and raises
  nothing: the loop goes on with the next line. In a file where every line of 13 parts
  or more has a first part of at least 6 characters, no line raises IndexError, also
  where that part is shorter than the 10 characters of the format.
\<close>

theorem malformed_lines:
  "(length (split line) < 13 \<longrightarrow>
       parse_line py_int py_float line = Inr None
     \<and> read_rows py_int py_float (line # rest) = read_rows py_int py_float rest)
   \<and> ((\<forall>l \<in> set lines. 13 \<le> length (split l) \<longrightarrow> 6 \<le> length (hd (split l))) \<longrightarrow>
       read_rows py_int py_float lines \<noteq> Inl IndexError
     \<and> load_noaa_temperature_data py_int py_float lines \<noteq> Inl IndexError)"
proof -
  have a: "parse_line py_int py_float line = Inr None
     \<and> read_rows py_int py_float (line # rest) = read_rows py_int py_float rest"
    if "length (split line) < 13"
    using that by (simp add: parse_line_short)
  have b: "read_rows py_int py_float lines \<noteq> Inl IndexError
     \<and> load_noaa_temperature_data py_int py_float lines \<noteq> Inl IndexError"
    if h: "\<forall>l \<in> set lines. 13 \<le> length (split l) \<longrightarrow> 6 \<le> length (hd (split l))"
  proof -
    have r: "read_rows py_int py_float lines \<noteq> Inl IndexError"
    proof
      assume "read_rows py_int py_float lines = Inl IndexError"
      then obtain l where "l \<in> set lines" and "parse_line py_int py_float l = Inl IndexError"
        using read_rows_IndexError by blast
      then have "l \<in> set lines" and "13 \<le> length (split l)" and "length (hd (split l)) \<le> 5"
        by (simp_all add: parse_line_IndexError)
      with h show False by fastforce
    qed
    then have "load_noaa_temperature_data py_int py_float lines \<noteq> Inl IndexError"
      by (auto simp: load_noaa_temperature_data_def Let_def split: sum.splits prod.splits)
    with r show ?thesis by simp
  qed
  from a b show ?thesis by blast
qed

theorem malformed_lines_witness:
  "length (split ''NOAA climdiv-tmpcst'') = 2
   \<and> read_rows dec_int dec_float (''NOAA climdiv-tmpcst'' # mixed_file)
       = read_rows dec_int dec_float mixed_file
   \<and> map (\<lambda>l. (length (split l), length (hd (split l)))) mixed_file = [(13, 10), (13, 10)]
   \<and> load_noaa_temperature_data dec_int dec_float mixed_file \<noteq> Inl IndexError"
proof -
  have h1: "length (split ''NOAA climdiv-tmpcst'') = 2"
    by code_simp
  have m: "map (\<lambda>l. (length (split l), length (hd (split l)))) mixed_file = [(13, 10), (13, 10)]"
    by code_simp
  have h2: "\<forall>l \<in> set mixed_file. 13 \<le> length (split l) \<longrightarrow> 6 \<le> length (hd (split l))"
    by code_simp
  from malformed_lines [of "''NOAA climdiv-tmpcst''" dec_int dec_float mixed_file mixed_file]
    h1 h2 m show ?thesis
    by simp
qed

text \<open>
  C4 as stated fails: from a file with a title line only no row is read, so zero rows
  match division \<open>00\<close>; yet the loader raises at the first filter and never reaches
  the fallback.
\<close>

theorem fallback_iff_counterexample:
  "read_rows dec_int dec_float [''NOAA climdiv-tmpcst''] = Inr []
   \<and> select_division ''00'' [] = []
   \<and> load_noaa_temperature_data dec_int dec_float [''NOAA climdiv-tmpcst''] = Inl KeyError"
  by code_simp

text \<open>
  C4, amended. For a file that is read without an exception, the loader prints the
  fallback message exactly if at least one row was read and no row of the whole frame
  has division \<open>00\<close> and a year in the window. With at least one row the loader
  returns, and prints the message at most once; with a division \<open>00\<close> row in the window
  the table is built from those rows alone, so a state that only has other divisions is
  absent; without one it is built from the division \<open>01\<close> rows of the same window.
\<close>

theorem fallback_iff:
  assumes "read_rows py_int py_float lines = Inr df"
  shows "((\<exists>out tbl. load_noaa_temperature_data py_int py_float lines = Inr (out, tbl)
             \<and> NoStatewide \<in> set out)
          \<longleftrightarrow> df \<noteq> [] \<and> select_division ''00'' df = [])
     \<and> (df \<noteq> [] \<longrightarrow>
          (\<exists>out tbl. load_noaa_temperature_data py_int py_float lines = Inr (out, tbl)
             \<and> count_list out NoStatewide \<le> 1
             \<and> tbl = fst (add_hawaii (resolve_states (dec_nov_means
                   (if select_division ''00'' df = [] then select_division ''01'' df
                    else select_division ''00'' df))))))"
proof (cases "df = []")
  case True
  with assms have "load_noaa_temperature_data py_int py_float lines = Inl KeyError"
    by (simp add: load_noaa_temperature_data_def)
  with True show ?thesis
    by simp
next
  case False
  show ?thesis
    unfolding load_noaa_rows [OF assms False]
    using False by (simp add: statewide_records_def add_hawaii_def Let_def)
qed

text \<open>
  In \<open>division_01_file\<close> no row has division \<open>00\<close>: the fallback is taken and both
  states appear. In \<open>mixed_file\<close> Alabama has a division \<open>00\<close> row: no fallback, and
  Arizona, with its division \<open>01\<close> row only, is absent.
\<close>

theorem fallback_iff_witness:
  "read_rows dec_int dec_float division_01_file
       = Inr (projr (read_rows dec_int dec_float division_01_file))
   \<and> projr (read_rows dec_int dec_float division_01_file) \<noteq> []
   \<and> select_division ''00'' (projr (read_rows dec_int dec_float division_01_file)) = []
   \<and> load_noaa_temperature_data dec_int dec_float division_01_file
       = Inr ([Loading, Found 0, NoStatewide, AddedHawaii, Loaded 3],
              [\<lparr>state_code = ''AL'', state_name = ''Alabama'',
                avg_dec_temperature = Fin 44, avg_nov_temperature = Fin 54\<rparr>,
               \<lparr>state_code = ''AZ'', state_name = ''Arizona'',
                avg_dec_temperature = Fin 51, avg_nov_temperature = Fin 60\<rparr>,
               hawaii_row])
   \<and> load_noaa_temperature_data dec_int dec_float mixed_file
       = Inr ([Loading, Found 1, AddedHawaii, Loaded 2],
              [\<lparr>state_code = ''AL'', state_name = ''Alabama'',
                avg_dec_temperature = Fin 44, avg_nov_temperature = Fin 54\<rparr>,
               hawaii_row])"
proof -
  let ?df = "projr (read_rows dec_int dec_float division_01_file)"
  have h1: "read_rows dec_int dec_float division_01_file = Inr ?df"
    by code_simp
  have h2: "?df \<noteq> []"
    by code_simp
  have s: "select_division ''00'' ?df = []"
    by code_simp
  have l: "load_noaa_temperature_data dec_int dec_float division_01_file
       = Inr ([Loading, Found 0, NoStatewide, AddedHawaii, Loaded 3],
              [\<lparr>state_code = ''AL'', state_name = ''Alabama'',
                avg_dec_temperature = Fin 44, avg_nov_temperature = Fin 54\<rparr>,
               \<lparr>state_code = ''AZ'', state_name = ''Arizona'',
                avg_dec_temperature = Fin 51, avg_nov_temperature = Fin 60\<rparr>,
               hawaii_row])"
    by code_simp
  have m: "load_noaa_temperature_data dec_int dec_float mixed_file
       = Inr ([Loading, Found 1, AddedHawaii, Loaded 2],
              [\<lparr>state_code = ''AL'', state_name = ''Alabama'',
                avg_dec_temperature = Fin 44, avg_nov_temperature = Fin 54\<rparr>,
               hawaii_row])"
    by code_simp
  from fallback_iff [OF h1] h1 h2 s l m show ?thesis
    by simp
qed

text \<open>
  C7 as stated fails: from a file with a title line only no row is read, so no row with
  the code \<open>HI\<close> can come out of aggregation and resolution; yet the loader raises at
  the first filter and appends no Hawaii row.
\<close>

theorem hawaii_iff_counterexample:
  "read_rows dec_int dec_float [''U.S. climate divisions''] = Inr []
   \<and> ''HI'' \<notin> state_code ` set (resolve_states (dec_nov_means (fst (statewide_records []))))
   \<and> load_noaa_temperature_data dec_int dec_float [''U.S. climate divisions''] = Inl KeyError"
  by code_simp

text \<open>
  C7, amended. For a file that is read without an exception, the loader appends the
  Hawaii row with December 73 and November 75, and prints its message, exactly if at
  least one row was read and the code \<open>HI\<close> is absent after aggregation and
  resolution. With at least one row the loader returns; where \<open>HI\<close> is present the
  resolved table is returned unchanged. \<open>HI\<close> is present exactly if a selected row has
  state FIPS \<open>051\<close>, so a file with a Hawaii record keeps the averages computed from
  it.
\<close>

theorem hawaii_iff:
  assumes "read_rows py_int py_float lines = Inr df"
  shows "((\<exists>out tbl. load_noaa_temperature_data py_int py_float lines = Inr (out, tbl)
             \<and> AddedHawaii \<in> set out)
          \<longleftrightarrow> df \<noteq> []
              \<and> ''HI'' \<notin> state_code ` set (resolve_states (dec_nov_means (fst (statewide_records df)))))
     \<and> (df \<noteq> [] \<longrightarrow>
          (\<exists>out tbl. load_noaa_temperature_data py_int py_float lines = Inr (out, tbl)
             \<and> (''HI'' \<in> state_code ` set (resolve_states (dec_nov_means (fst (statewide_records df))))
                  \<longleftrightarrow> ''051'' \<in> state_fips ` set (fst (statewide_records df)))
             \<and> tbl = (if ''HI'' \<in> state_code ` set (resolve_states (dec_nov_means (fst (statewide_records df))))
                      then resolve_states (dec_nov_means (fst (statewide_records df)))
                      else resolve_states (dec_nov_means (fst (statewide_records df)))
                           @ [\<lparr>state_code = ''HI'', state_name = ''Hawaii'',
                               avg_dec_temperature = Fin 73, avg_nov_temperature = Fin 75\<rparr>])))"
proof (cases "df = []")
  case True
  with assms have "load_noaa_temperature_data py_int py_float lines = Inl KeyError"
    by (simp add: load_noaa_temperature_data_def)
  with True show ?thesis
    by simp
next
  case False
  have "\<forall>r \<in> set (fst (statewide_records df)). length (state_fips r) = 3"
    using read_rows_fips_length [OF assms] statewide_records_subset by blast
  then have "''HI'' \<in> state_code ` set (resolve_states (dec_nov_means (fst (statewide_records df))))
          \<longleftrightarrow> ''051'' \<in> state_fips ` set (fst (statewide_records df))"
    by (rule resolve_states_hawaii)
  moreover have "AddedHawaii \<notin> set (snd (statewide_records df))"
    by (simp add: statewide_records_def Let_def)
  ultimately show ?thesis
    unfolding load_noaa_rows [OF assms False]
    using False by (simp add: add_hawaii_def hawaii_row_def)
qed

text \<open>
  In \<open>hawaii_file\<close> the Hawaii record is kept with its own averages and nothing is
  appended; in \<open>mixed_file\<close>, without a Hawaii record, the row with 73 and 75 is
  appended.
\<close>

theorem hawaii_iff_witness:
  "read_rows dec_int dec_float hawaii_file = Inr (projr (read_rows dec_int dec_float hawaii_file))
   \<and> projr (read_rows dec_int dec_float hawaii_file) \<noteq> []
   \<and> ''051'' \<in> state_fips ` set (fst (statewide_records (projr (read_rows dec_int dec_float hawaii_file))))
   \<and> load_noaa_temperature_data dec_int dec_float hawaii_file
       = Inr ([Loading, Found 2, Loaded 2],
              [\<lparr>state_code = ''AL'', state_name = ''Alabama'',
                avg_dec_temperature = Fin 44, avg_nov_temperature = Fin 54\<rparr>,
               \<lparr>state_code = ''HI'', state_name = ''Hawaii'',
                avg_dec_temperature = Fin 72.5, avg_nov_temperature = Fin 74.5\<rparr>])
   \<and> load_noaa_temperature_data dec_int dec_float mixed_file
       = Inr ([Loading, Found 1, AddedHawaii, Loaded 2],
              [\<lparr>state_code = ''AL'', state_name = ''Alabama'',
                avg_dec_temperature = Fin 44, avg_nov_temperature = Fin 54\<rparr>,
               \<lparr>state_code = ''HI'', state_name = ''Hawaii'',
                avg_dec_temperature = Fin 73, avg_nov_temperature = Fin 75\<rparr>])"
proof -
  let ?df = "projr (read_rows dec_int dec_float hawaii_file)"
  have h1: "read_rows dec_int dec_float hawaii_file = Inr ?df"
    by code_simp
  have h2: "?df \<noteq> []"
    by code_simp
  have f: "''051'' \<in> state_fips ` set (fst (statewide_records ?df))"
    by code_simp
  have l: "load_noaa_temperature_data dec_int dec_float hawaii_file
       = Inr ([Loading, Found 2, Loaded 2],
              [\<lparr>state_code = ''AL'', state_name = ''Alabama'',
                avg_dec_temperature = Fin 44, avg_nov_temperature = Fin 54\<rparr>,
               \<lparr>state_code = ''HI'', state_name = ''Hawaii'',
                avg_dec_temperature = Fin 72.5, avg_nov_temperature = Fin 74.5\<rparr>])"
    by code_simp
  have m: "load_noaa_temperature_data dec_int dec_float mixed_file
       = Inr ([Loading, Found 1, AddedHawaii, Loaded 2],
              [\<lparr>state_code = ''AL'', state_name = ''Alabama'',
                avg_dec_temperature = Fin 44, avg_nov_temperature = Fin 54\<rparr>,
               \<lparr>state_code = ''HI'', state_name = ''Hawaii'',
                avg_dec_temperature = Fin 73, avg_nov_temperature = Fin 75\<rparr>])"
    by code_simp
  from hawaii_iff [OF h1] h1 h2 f l m show ?thesis
    by simp
qed

text \<open>
  C9. Let the frame have rows of division \<open>00\<close> in the year window, and let \<open>f\<close> be the
  3-digit FIPS of some of them, resolving to the state \<open>c\<close>. Then the loader returns a
  table with exactly one row for \<open>c\<close>, and its December and November averages are
  the arithmetic means of the December and November values of exactly the selected
  rows of \<open>f\<close> (the values being numbers).
\<close>

theorem temperature_means:
  assumes rows: "read_rows py_int py_float lines = Inr df"
    and f: "f \<in> state_fips ` set (select_division ''00'' df)"
    and st: "map_of STATE_FIPS (state_fips_2 f) = Some (c, nm)"
    and fin: "\<And>r. r \<in> set (select_division ''00'' df) \<Longrightarrow> state_fips r = f
                \<Longrightarrow> dec r = Fin (d r) \<and> nov r = Fin (n r)"
  shows "\<exists>out tbl row. load_noaa_temperature_data py_int py_float lines = Inr (out, tbl)
     \<and> filter (\<lambda>row. state_code row = c) tbl = [row]
     \<and> state_name row = nm
     \<and> avg_dec_temperature row =
         Fin ((\<Sum>r\<leftarrow>filter (\<lambda>r. state_fips r = f) (select_division ''00'' df). d r)
              / real (length (filter (\<lambda>r. state_fips r = f) (select_division ''00'' df))))
     \<and> avg_nov_temperature row =
         Fin ((\<Sum>r\<leftarrow>filter (\<lambda>r. state_fips r = f) (select_division ''00'' df). n r)
              / real (length (filter (\<lambda>r. state_fips r = f) (select_division ''00'' df))))"
proof -
  let ?sw = "select_division ''00'' df"
  let ?g = "filter (\<lambda>r. state_fips r = f) ?sw"
  let ?R = "resolve_states (dec_nov_means ?sw)"
  let ?row = "\<lparr>state_code = c, state_name = nm,
               avg_dec_temperature = fl_mean (map dec ?g),
               avg_nov_temperature = fl_mean (map nov ?g)\<rparr>"
  from f have sw: "?sw \<noteq> []"
    by auto
  then have ne: "df \<noteq> []"
    by (auto simp: select_division_def)
  from sw have st_rec: "fst (statewide_records df) = ?sw"
    by (simp add: statewide_records_def Let_def)
  obtain out tbl where load: "load_noaa_temperature_data py_int py_float lines = Inr (out, tbl)"
    and tbl: "tbl = fst (add_hawaii ?R)"
    using load_noaa_rows [OF rows ne] st_rec by simp
  from f st have "?row \<in> set ?R"
    unfolding resolve_states_mem by blast
  then have mem: "?row \<in> set tbl"
    by (simp add: tbl add_hawaii_def)
  have dist: "distinct (map state_code tbl)"
    using load by (rule load_noaa_distinct)
  from mem have "c \<in> state_code ` set tbl"
    by force
  with dist have "\<exists>row. filter (\<lambda>row. state_code row = c) tbl = [row]"
    by (rule filter_key_single)
  then obtain row where single: "filter (\<lambda>row. state_code row = c) tbl = [row]" ..
  from mem have "?row \<in> set (filter (\<lambda>row. state_code row = c) tbl)"
    by simp
  with single have row: "row = ?row"
    by simp
  from f have g: "?g \<noteq> []"
    by (auto simp: filter_empty_conv)
  have md: "map dec ?g = map (\<lambda>r. Fin (d r)) ?g"
    using fin by simp
  have dm: "fl_mean (map dec ?g) = Fin ((\<Sum>r\<leftarrow>?g. d r) / real (length ?g))"
    unfolding md using g by (rule fl_mean_fin)
  have mn: "map nov ?g = map (\<lambda>r. Fin (n r)) ?g"
    using fin by simp
  have nm: "fl_mean (map nov ?g) = Fin ((\<Sum>r\<leftarrow>?g. n r) / real (length ?g))"
    unfolding mn using g by (rule fl_mean_fin)
  from load single row dm nm show ?thesis
    by simp
qed

theorem temperature_means_witness:
  "read_rows dec_int dec_float five_year_file = Inr (projr (read_rows dec_int dec_float five_year_file))
   \<and> ''001'' \<in> state_fips ` set (select_division ''00'' (projr (read_rows dec_int dec_float five_year_file)))
   \<and> map_of STATE_FIPS (state_fips_2 ''001'') = Some (''AL'', ''Alabama'')
   \<and> map (\<lambda>r. (year r, nov r, dec r))
         (filter (\<lambda>r. state_fips r = ''001'')
            (select_division ''00'' (projr (read_rows dec_int dec_float five_year_file))))
       = [(2020, Fin 50, Fin 40), (2021, Fin 52, Fin 42), (2022, Fin 54, Fin 44),
          (2023, Fin 56, Fin 46), (2024, Fin 58, Fin 48)]
   \<and> load_noaa_temperature_data dec_int dec_float five_year_file
       = Inr ([Loading, Found 5, AddedHawaii, Loaded 2],
              [\<lparr>state_code = ''AL'', state_name = ''Alabama'',
                avg_dec_temperature = Fin 44, avg_nov_temperature = Fin 54\<rparr>,
               hawaii_row])
   \<and> (44 :: real) = (40 + 42 + 44 + 46 + 48) / 5
   \<and> (54 :: real) = (50 + 52 + 54 + 56 + 58) / 5"
proof -
  let ?df = "projr (read_rows dec_int dec_float five_year_file)"
  let ?d = "\<lambda>r. case dec r of Fin x \<Rightarrow> x | _ \<Rightarrow> 0"
  let ?n = "\<lambda>r. case nov r of Fin x \<Rightarrow> x | _ \<Rightarrow> 0"
  have h1: "read_rows dec_int dec_float five_year_file = Inr ?df"
    by code_simp
  have h2: "''001'' \<in> state_fips ` set (select_division ''00'' ?df)"
    by code_simp
  have h3: "map_of STATE_FIPS (state_fips_2 ''001'') = Some (''AL'', ''Alabama'')"
    by code_simp
  have a: "\<forall>r \<in> set (select_division ''00'' ?df). dec r = Fin (?d r) \<and> nov r = Fin (?n r)"
    by code_simp
  then have h4: "\<And>r. r \<in> set (select_division ''00'' ?df) \<Longrightarrow> state_fips r = ''001''
                \<Longrightarrow> dec r = Fin (?d r) \<and> nov r = Fin (?n r)"
    by blast
  have v: "map (\<lambda>r. (year r, nov r, dec r))
         (filter (\<lambda>r. state_fips r = ''001'') (select_division ''00'' ?df))
       = [(2020, Fin 50, Fin 40), (2021, Fin 52, Fin 42), (2022, Fin 54, Fin 44),
          (2023, Fin 56, Fin 46), (2024, Fin 58, Fin 48)]"
    by code_simp
  have l: "load_noaa_temperature_data dec_int dec_float five_year_file
       = Inr ([Loading, Found 5, AddedHawaii, Loaded 2],
              [\<lparr>state_code = ''AL'', state_name = ''Alabama'',
                avg_dec_temperature = Fin 44, avg_nov_temperature = Fin 54\<rparr>,
               hawaii_row])"
    by code_simp
  from temperature_means [of dec_int dec_float five_year_file ?df "''001''" "''AL''" "''Alabama''" ?d ?n,
        OF h1 h2 h3 h4]
    h1 h2 h3 v l show ?thesis
    by simp
qed

subsection \<open>Combined table over the loaders' results\<close>

text \<open>
  C2. For the results of the three loaders, the combined table has the state codes of
  the temperature table, row for row, and these are distinct: one row per state of the
  temperature table and no other state. A row whose state is missing from the passenger
  frame has \<open>holiday_travel_volume = 0\<close>, and one whose state is missing from the delay
  frame has \<open>avg_delay_pct = 0\<close>.
\<close>

theorem combine_universe:
  assumes "load_noaa_temperature_data py_int py_float lines = Inr (out, temp_df)"
  shows "map state_code (combine_datasets (load_airport_passengers pdf) (load_flight_delays ddf) temp_df)
           = map state_code temp_df
     \<and> distinct (map state_code temp_df)
     \<and> (\<forall>r \<in> set (combine_datasets (load_airport_passengers pdf) (load_flight_delays ddf) temp_df).
           (state_code r \<notin> p_state_code ` set pdf \<longrightarrow> holiday_travel_volume r = Fin 0)
         \<and> (state_code r \<notin> d_state_code ` set ddf \<longrightarrow> avg_delay_pct r = Fin 0))"
proof -
  have dp: "distinct (map sp_state_code (load_airport_passengers pdf))"
    by (simp add: load_airport_passengers_codes)
  have dd: "distinct (map sd_state_code (load_flight_delays ddf))"
    by (simp add: load_flight_delays_codes)
  have "set (map sp_state_code (load_airport_passengers pdf)) = p_state_code ` set pdf"
    by (simp add: load_airport_passengers_codes)
  then have kp: "sp_state_code ` set (load_airport_passengers pdf) = p_state_code ` set pdf"
    by simp
  have "set (map sd_state_code (load_flight_delays ddf)) = d_state_code ` set ddf"
    by (simp add: load_flight_delays_codes)
  then have kd: "sd_state_code ` set (load_flight_delays ddf) = d_state_code ` set ddf"
    by simp
  from combine_universe_general [OF dp dd, of temp_df] load_noaa_distinct [OF assms]
  show ?thesis
    unfolding kp kd by blast
qed

theorem combine_universe_witness:
  "load_noaa_temperature_data dec_int dec_float mixed_file
       = Inr ([Loading, Found 1, AddedHawaii, Loaded 2],
              [\<lparr>state_code = ''AL'', state_name = ''Alabama'',
                avg_dec_temperature = Fin 44, avg_nov_temperature = Fin 54\<rparr>,
               hawaii_row])
   \<and> map (\<lambda>r. (state_code r, holiday_travel_volume r, avg_delay_pct r))
        (combine_datasets
          (load_airport_passengers
             [\<lparr>p_state_code = ''AL'', p_nov_passengers = 100, p_dec_passengers = 50\<rparr>,
              \<lparr>p_state_code = ''CA'', p_nov_passengers = 200, p_dec_passengers = 75\<rparr>])
          (load_flight_delays
             [\<lparr>d_state_code = ''TX'', d_delay_pct = Fin 10, d_avg_delay_minutes = Fin 30,
               d_total_flights = 100, d_delayed_flights = 10, d_cancelled_flights = 1\<rparr>])
          [\<lparr>state_code = ''AL'', state_name = ''Alabama'',
            avg_dec_temperature = Fin 44, avg_nov_temperature = Fin 54\<rparr>,
           hawaii_row])
       = [(''AL'', Fin 150, Fin 0), (''HI'', Fin 0, Fin 0)]"
proof -
  let ?t = "[\<lparr>state_code = ''AL'', state_name = ''Alabama'',
            avg_dec_temperature = Fin 44, avg_nov_temperature = Fin 54\<rparr>,
           hawaii_row]"
  let ?p = "[\<lparr>p_state_code = ''AL'', p_nov_passengers = 100, p_dec_passengers = 50\<rparr>,
              \<lparr>p_state_code = ''CA'', p_nov_passengers = 200, p_dec_passengers = 75\<rparr>]"
  let ?d = "[\<lparr>d_state_code = ''TX'', d_delay_pct = Fin 10, d_avg_delay_minutes = Fin 30,
               d_total_flights = 100, d_delayed_flights = 10, d_cancelled_flights = 1\<rparr>]"
  have h: "load_noaa_temperature_data dec_int dec_float mixed_file
       = Inr ([Loading, Found 1, AddedHawaii, Loaded 2], ?t)"
    by code_simp
  have e: "map (\<lambda>r. (state_code r, holiday_travel_volume r, avg_delay_pct r))
        (combine_datasets (load_airport_passengers ?p) (load_flight_delays ?d) ?t)
       = [(''AL'', Fin 150, Fin 0), (''HI'', Fin 0, Fin 0)]"
    by code_simp
  from combine_universe [OF h, of ?p ?d] h e show ?thesis
    by simp
qed

end
